theory Spec2Isabelle
  imports Main "HOL-Library.AList"
begin

section \<open>JSON values and the Python operations the handlers apply to them\<close>

text \<open>
  The server of \<^verbatim>\<open>src/app.py\<close> keeps two JSON files and answers five HTTP requests.
  Everything it handles is a value parsed from JSON: the request body
  (\<^verbatim>\<open>request.json\<close>) and the two documents (\<^verbatim>\<open>json.load\<close>). A handler is
  modelled from the value \<^verbatim>\<open>request.json\<close> returned; the clock read by
  \<^verbatim>\<open>datetime.now().isoformat()\<close> is an argument.

  A Python \<^verbatim>\<open>dict\<close> keeps its keys in insertion order, so an object is an association
  list; \<^verbatim>\<open>d[k] = v\<close> is \<^const>\<open>AList.update\<close> (the value is replaced in place when the
  key is there, the pair is added at the end otherwise) and \<^verbatim>\<open>d.get(k)\<close> is
  \<^const>\<open>map_of\<close>. A float is carried as the text the JSON encoder writes for it, which
  names the float; that text is all the handlers ever need of a float (whether it is zero,
  and how it reads as a key).
\<close>

datatype json =
    JNull
  | JBool bool
  | JInt int
  | JFloat string
  | JStr string
  | JList "json list"
  | JObj "(string \<times> json) list"

text \<open>A stored profile is an object: its fields in order.\<close>

type_synonym profile = "(string \<times> json) list"

text \<open>
  A document (\<^verbatim>\<open>tutors.json\<close>, \<^verbatim>\<open>students.json\<close>) is an object whose values are
  profiles: \<^verbatim>\<open>ensure_data_files_exist\<close> seeds it with \<^verbatim>\<open>{}\<close>, and the handlers only
  ever store a request body they have called \<^verbatim>\<open>.get\<close> on, which is a \<^verbatim>\<open>dict\<close>.
\<close>

type_synonym document = "(string \<times> profile) list"

text \<open>The exceptions the handlers can meet. \<open>KeyError\<close> carries the missing key.\<close>

datatype py_error =
    FileNotFoundError
  | JSONDecodeError
  | AttributeError
  | TypeError
  | KeyError string

text \<open>Python's truth value of a parsed JSON value (\<^verbatim>\<open>not x\<close> is its negation).\<close>

fun truthy :: "json \<Rightarrow> bool" where
  "truthy JNull = False"
| "truthy (JBool b) = b"
| "truthy (JInt i) = (i \<noteq> 0)"
| "truthy (JFloat t) = (t \<noteq> ''0.0'' \<and> t \<noteq> ''-0.0'')"
| "truthy (JStr s) = (s \<noteq> [])"
| "truthy (JList xs) = (xs \<noteq> [])"
| "truthy (JObj fields) = (fields \<noteq> [])"

text \<open>
  \<^verbatim>\<open>x.get(k)\<close> on a parsed JSON value: only a \<^verbatim>\<open>dict\<close> has the method, and a missing
  key gives \<^verbatim>\<open>None\<close>.
\<close>

definition dict_get :: "json \<Rightarrow> string \<Rightarrow> py_error + json" where
  "dict_get x k =
     (case x of
        JObj fields \<Rightarrow> Inr (case map_of fields k of None \<Rightarrow> JNull | Some v \<Rightarrow> v)
      | _ \<Rightarrow> Inl AttributeError)"

text \<open>
  \<^verbatim>\<open>k in d\<close> for a request value \<^verbatim>\<open>k\<close> and a loaded document \<^verbatim>\<open>d\<close>. The test hashes
  \<^verbatim>\<open>k\<close>: a list or a dict is unhashable and raises \<^verbatim>\<open>TypeError\<close>. The keys of a
  loaded document are all strings, so a number, a boolean or \<^verbatim>\<open>None\<close> is never a
  member, and a member is the key it equals: the result is that key.
\<close>

fun find_key :: "json \<Rightarrow> document \<Rightarrow> py_error + string option" where
  "find_key (JStr s) d = Inr (if map_of d s = None then None else Some s)"
| "find_key (JList xs) d = Inl TypeError"
| "find_key (JObj fields) d = Inl TypeError"
| "find_key JNull d = Inr None"
| "find_key (JBool b) d = Inr None"
| "find_key (JInt i) d = Inr None"
| "find_key (JFloat t) d = Inr None"

text \<open>Decimal digits of a natural number, and Python's \<^verbatim>\<open>int.__repr__\<close>.\<close>

function nat_digits :: "nat \<Rightarrow> string" where
  "nat_digits n =
     (if n < 10 then [''0123456789'' ! n]
      else nat_digits (n div 10) @ [''0123456789'' ! (n mod 10)])"
  by pat_completeness auto
termination
  by (relation "measure id") auto

definition int_repr :: "int \<Rightarrow> string" where
  "int_repr i = (if i < 0 then CHR ''-'' # nat_digits (nat (- i)) else nat_digits (nat i))"

text \<open>
  The key under which \<^verbatim>\<open>data[k] = v\<close> followed by \<^verbatim>\<open>json.dump(data, f)\<close> writes the
  entry. The assignment hashes \<^verbatim>\<open>k\<close> (a list or a dict raises \<^verbatim>\<open>TypeError\<close>); the
  encoder writes a string key as it is and a number, a boolean or \<^verbatim>\<open>None\<close> as its JSON
  text.
\<close>

fun key_text :: "json \<Rightarrow> py_error + string" where
  "key_text (JStr s) = Inr s"
| "key_text (JInt i) = Inr (int_repr i)"
| "key_text (JFloat t) = Inr t"
| "key_text (JBool b) = Inr (if b then ''true'' else ''false'')"
| "key_text JNull = Inr ''null''"
| "key_text (JList xs) = Inl TypeError"
| "key_text (JObj fields) = Inl TypeError"

section \<open>The store: two files\<close>

datatype path = TUTORS_FILE | STUDENTS_FILE

text \<open>
  What \<^verbatim>\<open>json.load\<close> finds at a path: no file (\<^verbatim>\<open>open\<close> raises), text that is not
  JSON (the parser raises), or a document.
\<close>

datatype file_state = Absent | Malformed | Holds document

type_synonym store = "path \<Rightarrow> file_state"

definition load_data :: "store \<Rightarrow> path \<Rightarrow> py_error + document" where
  "load_data st file_path =
     (case st file_path of
        Absent \<Rightarrow> Inl FileNotFoundError
      | Malformed \<Rightarrow> Inl JSONDecodeError
      | Holds d \<Rightarrow> Inr d)"

text \<open>
  \<^verbatim>\<open>save_data\<close> replaces the whole file by the encoding of \<open>data\<close>; the file then
  holds \<open>data\<close>. Every handler loads a file before it saves it, so the file is there when
  it is written, and what is written was read from JSON, so the encoder accepts it.
\<close>

definition save_data :: "store \<Rightarrow> path \<Rightarrow> document \<Rightarrow> store" where
  "save_data st file_path data = st(file_path := Holds data)"

section \<open>Responses\<close>

text \<open>
  The body handed to \<^verbatim>\<open>jsonify\<close>: a JSON value, or, in an \<^verbatim>\<open>except\<close> branch, the
  object \<^verbatim>\<open>{"message": m, "error": str(e)}\<close>, kept as the message and the exception.
\<close>

datatype body = Json json | Failure string py_error

text \<open>
  What a handler does: it returns a body with a status, or an exception leaves it (only
  the lines before \<^verbatim>\<open>try\<close> can do that; Flask then answers with its own error page).
\<close>

datatype outcome = Reply body nat | Raised py_error

definition message :: "string \<Rightarrow> body" where
  "message m = Json (JObj [(''message'', JStr m)])"

section \<open>The handlers\<close>

subsection \<open>\<^verbatim>\<open>register_tutor\<close>\<close>

text \<open>
  The \<^verbatim>\<open>try\<close> block of \<^verbatim>\<open>register_tutor\<close>: load the tutors, set the body's
  \<^verbatim>\<open>notifications\<close> to the empty list, store the body under the id, save.
\<close>

definition register_tutor_try :: "profile \<Rightarrow> json \<Rightarrow> store \<Rightarrow> py_error + store" where
  "register_tutor_try tutor_data tutor_id st =
     (case load_data st TUTORS_FILE of
        Inl e \<Rightarrow> Inl e
      | Inr data \<Rightarrow>
          (case key_text tutor_id of
             Inl e \<Rightarrow> Inl e
           | Inr k \<Rightarrow>
               Inr (save_data st TUTORS_FILE
                 (AList.update k (AList.update ''notifications'' (JList []) tutor_data) data))))"

definition register_tutor :: "json \<Rightarrow> store \<Rightarrow> outcome \<times> store" where
  "register_tutor request_json st =
     (case request_json of
        JObj tutor_data \<Rightarrow>
          (case dict_get request_json ''id'' of
             Inl e \<Rightarrow> (Raised e, st)
           | Inr tutor_id \<Rightarrow>
               if \<not> truthy tutor_id then (Reply (message ''Tutor ID is required'') 400, st)
               else
                 (case register_tutor_try tutor_data tutor_id st of
                    Inl e \<Rightarrow> (Reply (Failure ''Failed to save tutor profile'' e) 500, st)
                  | Inr st' \<Rightarrow> (Reply (message ''Tutor profile saved successfully!'') 201, st')))
      | _ \<Rightarrow> (Raised AttributeError, st))"

subsection \<open>\<^verbatim>\<open>register_student\<close>\<close>

definition register_student_try :: "profile \<Rightarrow> json \<Rightarrow> store \<Rightarrow> py_error + store" where
  "register_student_try student_data student_id st =
     (case load_data st STUDENTS_FILE of
        Inl e \<Rightarrow> Inl e
      | Inr data \<Rightarrow>
          (case key_text student_id of
             Inl e \<Rightarrow> Inl e
           | Inr k \<Rightarrow> Inr (save_data st STUDENTS_FILE (AList.update k student_data data))))"

definition register_student :: "json \<Rightarrow> store \<Rightarrow> outcome \<times> store" where
  "register_student request_json st =
     (case request_json of
        JObj student_data \<Rightarrow>
          (case dict_get request_json ''id'' of
             Inl e \<Rightarrow> (Raised e, st)
           | Inr student_id \<Rightarrow>
               if \<not> truthy student_id then (Reply (message ''Student ID is required'') 400, st)
               else
                 (case register_student_try student_data student_id st of
                    Inl e \<Rightarrow> (Reply (Failure ''Failed to save student profile'' e) 500, st)
                  | Inr st' \<Rightarrow> (Reply (message ''Student profile saved successfully!'') 201, st')))
      | _ \<Rightarrow> (Raised AttributeError, st))"

subsection \<open>\<^verbatim>\<open>get_all_tutors\<close>\<close>

text \<open>The comprehension \<^verbatim>\<open>{k: v for k, v in tutor.items() if k != 'notifications'}\<close>.\<close>

definition strip_notifications :: "profile \<Rightarrow> profile" where
  "strip_notifications tutor = filter (\<lambda>(k, v). k \<noteq> ''notifications'') tutor"

definition get_all_tutors :: "store \<Rightarrow> outcome" where
  "get_all_tutors st =
     (case load_data st TUTORS_FILE of
        Inl e \<Rightarrow> Reply (Failure ''Failed to retrieve tutor data'' e) 500
      | Inr data \<Rightarrow>
          Reply (Json (JList (map (\<lambda>tutor. JObj (strip_notifications tutor)) (map snd data)))) 200)"

subsection \<open>\<^verbatim>\<open>select_tutor\<close>\<close>

text \<open>The notification built for a student id and the clock's ISO text.\<close>

definition notification :: "string \<Rightarrow> string \<Rightarrow> json" where
  "notification student_id now =
     JObj [(''student_id'', JStr student_id),
           (''message'', JStr (''Student '' @ student_id @ '' is interested in your services.'')),
           (''timestamp'', JStr now)]"

text \<open>
  \<^verbatim>\<open>tutor_data[tutor_id]['notifications'].append(notification)\<close>: the two subscripts
  raise \<^verbatim>\<open>KeyError\<close> on a missing key, and only a list has \<^verbatim>\<open>append\<close>. The list is
  changed in place, so the profile and the document keep their order.
\<close>

definition append_notification :: "document \<Rightarrow> string \<Rightarrow> json \<Rightarrow> py_error + document" where
  "append_notification tutor_data tutor_id n =
     (case map_of tutor_data tutor_id of
        None \<Rightarrow> Inl (KeyError tutor_id)
      | Some tutor \<Rightarrow>
          (case map_of tutor ''notifications'' of
             None \<Rightarrow> Inl (KeyError ''notifications'')
           | Some (JList ns) \<Rightarrow>
               Inr (AList.update tutor_id
                      (AList.update ''notifications'' (JList (ns @ [n])) tutor) tutor_data)
           | Some _ \<Rightarrow> Inl AttributeError))"

text \<open>
  The \<^verbatim>\<open>try\<close> block of \<^verbatim>\<open>select_tutor\<close>. \<^verbatim>\<open>a not in x or b not in y\<close> tests the
  student only when the tutor is a key. \<open>None\<close> is the 404 return, which writes nothing.
\<close>

definition select_tutor_try ::
  "string \<Rightarrow> json \<Rightarrow> json \<Rightarrow> store \<Rightarrow> py_error + (outcome \<times> store)" where
  "select_tutor_try now tutor_id student_id st =
     (case load_data st TUTORS_FILE of
        Inl e \<Rightarrow> Inl e
      | Inr tutor_data \<Rightarrow>
          (case load_data st STUDENTS_FILE of
             Inl e \<Rightarrow> Inl e
           | Inr student_data \<Rightarrow>
               (case find_key tutor_id tutor_data of
                  Inl e \<Rightarrow> Inl e
                | Inr None \<Rightarrow> Inr (Reply (message ''Tutor or student not found'') 404, st)
                | Inr (Some t) \<Rightarrow>
                    (case find_key student_id student_data of
                       Inl e \<Rightarrow> Inl e
                     | Inr None \<Rightarrow> Inr (Reply (message ''Tutor or student not found'') 404, st)
                     | Inr (Some s) \<Rightarrow>
                         (case append_notification tutor_data t (notification s now) of
                            Inl e \<Rightarrow> Inl e
                          | Inr tutor_data' \<Rightarrow>
                              Inr (Reply (message ''Tutor notified successfully!'') 200,
                                   save_data st TUTORS_FILE tutor_data'))))))"

definition select_tutor :: "string \<Rightarrow> json \<Rightarrow> store \<Rightarrow> outcome \<times> store" where
  "select_tutor now request_data st =
     (case dict_get request_data ''tutorId'' of
        Inl e \<Rightarrow> (Raised e, st)
      | Inr tutor_id \<Rightarrow>
          (case dict_get request_data ''studentId'' of
             Inl e \<Rightarrow> (Raised e, st)
           | Inr student_id \<Rightarrow>
               if \<not> truthy tutor_id
               then (Reply (message ''Tutor ID and Student ID are required'') 400, st)
               else if \<not> truthy student_id
               then (Reply (message ''Tutor ID and Student ID are required'') 400, st)
               else
                 (case select_tutor_try now tutor_id student_id st of
                    Inl e \<Rightarrow> (Reply (Failure ''Failed to notify tutor'' e) 500, st)
                  | Inr r \<Rightarrow> r)))"

subsection \<open>\<^verbatim>\<open>get_tutor_notifications\<close>\<close>

text \<open>
  \<^verbatim>\<open>tutor_data.get(tutor_id)\<close> is \<^verbatim>\<open>None\<close> for a missing key; \<^verbatim>\<open>not tutor_profile\<close>
  holds for \<^verbatim>\<open>None\<close> and for the empty profile.
\<close>

definition get_tutor_notifications :: "string \<Rightarrow> store \<Rightarrow> outcome" where
  "get_tutor_notifications tutor_id st =
     (case load_data st TUTORS_FILE of
        Inl e \<Rightarrow> Reply (Failure ''Failed to retrieve notifications'' e) 500
      | Inr tutor_data \<Rightarrow>
          (case map_of tutor_data tutor_id of
             None \<Rightarrow> Reply (message ''Tutor not found'') 404
           | Some tutor_profile \<Rightarrow>
               if tutor_profile = [] then Reply (message ''Tutor not found'') 404
               else
                 Reply (Json (JObj [(''notifications'',
                   (case map_of tutor_profile ''notifications'' of
                      None \<Rightarrow> JList []
                    | Some notifications \<Rightarrow> notifications))])) 200))"

section \<open>Properties\<close>

subsection \<open>Reading the definitions\<close>

text \<open>
  Two predicates to state the properties with: a request value is a key of a document
  (the keys of a document are strings, so only a string is one), and a request value can
  be hashed (it is no list and no dict).
\<close>

definition is_key :: "json \<Rightarrow> document \<Rightarrow> bool" where
  "is_key k d = (case k of JStr s \<Rightarrow> map_of d s \<noteq> None | _ \<Rightarrow> False)"

fun hashable :: "json \<Rightarrow> bool" where
  "hashable (JList xs) = False"
| "hashable (JObj fields) = False"
| "hashable v = True"

text \<open>
  Two stores to run the handlers on. \<open>registered_store\<close> is what registering the tutor
  \<^verbatim>\<open>{id: "t1", name: "Jane"}\<close> and the student \<^verbatim>\<open>{id: "s1", name: "Sam"}\<close> leaves behind.
  In \<open>legacy_store\<close> the tutors file was written by other means: \<open>t1\<close> has no
  \<open>notifications\<close> field and \<open>t0\<close> is the empty record.
\<close>

definition registered_store :: store where
  "registered_store =
     (\<lambda>p. case p of
        TUTORS_FILE \<Rightarrow>
          Holds [(''t1'', [(''id'', JStr ''t1''), (''name'', JStr ''Jane''),
                           (''notifications'', JList [])])]
      | STUDENTS_FILE \<Rightarrow> Holds [(''s1'', [(''id'', JStr ''s1''), (''name'', JStr ''Sam'')])])"

definition legacy_store :: store where
  "legacy_store =
     (\<lambda>p. case p of
        TUTORS_FILE \<Rightarrow>
          Holds [(''t0'', []), (''t1'', [(''id'', JStr ''t1''), (''name'', JStr ''Jane'')])]
      | STUDENTS_FILE \<Rightarrow> Holds [(''s1'', [(''id'', JStr ''s1''), (''name'', JStr ''Sam'')])])"

lemma dict_get_obj:
  "dict_get (JObj fields) k = Inr (case map_of fields k of None \<Rightarrow> JNull | Some v \<Rightarrow> v)"
  by (simp add: dict_get_def)

lemma is_key_iff: "is_key k d \<longleftrightarrow> (\<exists>s p. k = JStr s \<and> map_of d s = Some p)"
  by (cases k) (auto simp: is_key_def)

lemma find_key_Some: "find_key k d = Inr (Some t) \<longleftrightarrow> k = JStr t \<and> is_key k d"
  by (cases k) (auto simp: is_key_def)

lemma find_key_None: "find_key k d = Inr None \<longleftrightarrow> hashable k \<and> \<not> is_key k d"
  by (cases k) (auto simp: is_key_def)

lemma find_key_raises: "find_key k d = Inl e \<longleftrightarrow> \<not> hashable k \<and> e = TypeError"
  by (cases k) auto

lemma key_text_hashable: "hashable v \<longleftrightarrow> (\<exists>k. key_text v = Inr k)"
  by (cases v) auto

lemma key_text_JStr: "key_text (JStr s) = Inr k \<longleftrightarrow> k = s"
  by auto

lemma update_keys_present:
  "map_of al k = Some v \<Longrightarrow> map fst (AList.update k w al) = map fst al"
  by (induction al) auto

lemma map_of_strip_notifications:
  "map_of (strip_notifications tutor) k =
     (if k = ''notifications'' then None else map_of tutor k)"
  unfolding strip_notifications_def by (induction tutor) auto

lemma keys_strip_notifications:
  "fst ` set (strip_notifications tutor) = fst ` set tutor - {''notifications''}"
  unfolding strip_notifications_def by force

lemma keys_order_strip_notifications:
  "map fst (strip_notifications tutor) = filter (\<lambda>k. k \<noteq> ''notifications'') (map fst tutor)"
  unfolding strip_notifications_def by (induction tutor) auto

lemma load_data_Holds: "st p = Holds d \<Longrightarrow> load_data st p = Inr d"
  by (simp add: load_data_def)

text \<open>
  \<^verbatim>\<open>select_tutor\<close> on an object whose two ids are truthy is its \<^verbatim>\<open>try\<close> block, with
  the \<^verbatim>\<open>except\<close> branch around it.
\<close>

lemma select_tutor_truthy:
  assumes "map_of fields ''tutorId'' = Some tutor_id" and "truthy tutor_id"
    and "map_of fields ''studentId'' = Some student_id" and "truthy student_id"
  shows "select_tutor now (JObj fields) st =
    (case select_tutor_try now tutor_id student_id st of
       Inl e \<Rightarrow> (Reply (Failure ''Failed to notify tutor'' e) 500, st)
     | Inr r \<Rightarrow> r)"
  using assms by (simp add: select_tutor_def dict_get_obj)

text \<open>One successful call, from a store where the tutor has a list of notifications.\<close>

lemma select_tutor_try_appends:
  assumes "st TUTORS_FILE = Holds tutor_data" and "st STUDENTS_FILE = Holds student_data"
    and "map_of tutor_data t = Some tutor" and "map_of student_data s = Some student"
    and "map_of tutor ''notifications'' = Some (JList ns)"
  shows "select_tutor_try now (JStr t) (JStr s) st =
    Inr (Reply (message ''Tutor notified successfully!'') 200,
         st(TUTORS_FILE := Holds (AList.update t
           (AList.update ''notifications'' (JList (ns @ [notification s now])) tutor)
           tutor_data)))"
  using assms
  by (simp add: select_tutor_try_def load_data_Holds append_notification_def save_data_def)

subsection \<open>\<^verbatim>\<open>select_tutor\<close>\<close>

text \<open>
  C1 (amended). A SelectTutor request whose body holds a non-empty \<open>tutorId\<close> that is a
  key of the tutor map and a non-empty \<open>studentId\<close> that is a key of the student map,
  where the tutor's stored record holds a list under \<open>notifications\<close>, is answered 200,
  and the tutor map is saved with exactly one notification added at the end of that
  list: its \<open>student_id\<close> is the \<open>studentId\<close> and its \<open>message\<close> is
  \<open>Student {studentId} is interested in your services.\<close> A second call adds a second
  notification after the first: earlier entries stay.
\<close>

theorem select_tutor_appends_one_notification:
  assumes "map_of fields ''tutorId'' = Some (JStr t)" and "t \<noteq> []"
    and "map_of fields ''studentId'' = Some (JStr s)" and "s \<noteq> []"
    and "st TUTORS_FILE = Holds tutor_data" and "st STUDENTS_FILE = Holds student_data"
    and "map_of tutor_data t = Some tutor" and "map_of student_data s = Some student"
    and "map_of tutor ''notifications'' = Some (JList ns)"
  shows "select_tutor now (JObj fields) st =
      (Reply (message ''Tutor notified successfully!'') 200,
       st(TUTORS_FILE := Holds (AList.update t
         (AList.update ''notifications'' (JList (ns @ [notification s now])) tutor)
         tutor_data)))
    \<and> notification s now =
        JObj [(''student_id'', JStr s),
              (''message'', JStr (''Student '' @ s @ '' is interested in your services.'')),
              (''timestamp'', JStr now)]
    \<and> select_tutor now' (JObj fields) (snd (select_tutor now (JObj fields) st)) =
      (Reply (message ''Tutor notified successfully!'') 200,
       st(TUTORS_FILE := Holds (AList.update t
         (AList.update ''notifications''
            (JList (ns @ [notification s now, notification s now'])) tutor)
         tutor_data)))"
proof -
  let ?tutor1 = "AList.update ''notifications'' (JList (ns @ [notification s now])) tutor"
  let ?data1 = "AList.update t ?tutor1 tutor_data"
  let ?st1 = "st(TUTORS_FILE := Holds ?data1)"
  have truthy: "truthy (JStr t)" "truthy (JStr s)"
    using assms(2,4) by simp_all
  have first: "select_tutor now (JObj fields) st =
      (Reply (message ''Tutor notified successfully!'') 200, ?st1)"
    using select_tutor_try_appends [OF assms(5-9), of now]
    by (simp add: select_tutor_truthy [OF assms(1) truthy(1) assms(3) truthy(2)])
  have tutors1: "?st1 TUTORS_FILE = Holds ?data1"
    by simp
  have students1: "?st1 STUDENTS_FILE = Holds student_data"
    using assms(6) by simp
  have tutor1: "map_of ?data1 t = Some ?tutor1"
    by (simp add: AList.update_conv')
  have list1: "map_of ?tutor1 ''notifications'' = Some (JList (ns @ [notification s now]))"
    by (simp add: AList.update_conv')
  have try2: "select_tutor_try now' (JStr t) (JStr s) ?st1 =
      Inr (Reply (message ''Tutor notified successfully!'') 200,
       ?st1(TUTORS_FILE := Holds (AList.update t
         (AList.update ''notifications''
            (JList ((ns @ [notification s now]) @ [notification s now'])) ?tutor1) ?data1)))"
    by (rule select_tutor_try_appends [OF tutors1 students1 tutor1 assms(8) list1])
  have "select_tutor now' (JObj fields) ?st1 =
      (Reply (message ''Tutor notified successfully!'') 200,
       ?st1(TUTORS_FILE := Holds (AList.update t
         (AList.update ''notifications''
            (JList ((ns @ [notification s now]) @ [notification s now'])) ?tutor1) ?data1)))"
    by (simp only: select_tutor_truthy [OF assms(1) truthy(1) assms(3) truthy(2)] try2
        sum.case)
  also have "?st1(TUTORS_FILE := Holds (AList.update t
         (AList.update ''notifications''
            (JList ((ns @ [notification s now]) @ [notification s now'])) ?tutor1) ?data1)) =
       st(TUTORS_FILE := Holds (AList.update t
         (AList.update ''notifications''
            (JList (ns @ [notification s now, notification s now'])) tutor) tutor_data))"
    by simp
  finally have second: "select_tutor now' (JObj fields) ?st1 =
      (Reply (message ''Tutor notified successfully!'') 200,
       st(TUTORS_FILE := Holds (AList.update t
         (AList.update ''notifications''
            (JList (ns @ [notification s now, notification s now'])) tutor) tutor_data)))" .
  show ?thesis
    using first second by (simp add: notification_def)
qed

theorem select_tutor_appends_one_notification_witness:
  "select_tutor ''2024-05-01T10:00:00''
     (JObj [(''tutorId'', JStr ''t1''), (''studentId'', JStr ''s1'')]) registered_store =
   (Reply (message ''Tutor notified successfully!'') 200,
    registered_store(TUTORS_FILE := Holds
      [(''t1'', [(''id'', JStr ''t1''), (''name'', JStr ''Jane''),
         (''notifications'', JList
            [JObj [(''student_id'', JStr ''s1''),
                   (''message'', JStr ''Student s1 is interested in your services.''),
                   (''timestamp'', JStr ''2024-05-01T10:00:00'')]])])]))"
  using select_tutor_appends_one_notification
    [of "[(''tutorId'', JStr ''t1''), (''studentId'', JStr ''s1'')]" "''t1''" "''s1''"
      registered_store
      "[(''t1'', [(''id'', JStr ''t1''), (''name'', JStr ''Jane''),
                  (''notifications'', JList [])])]"
      "[(''s1'', [(''id'', JStr ''s1''), (''name'', JStr ''Sam'')])]"
      "[(''id'', JStr ''t1''), (''name'', JStr ''Jane''), (''notifications'', JList [])]"
      "[(''id'', JStr ''s1''), (''name'', JStr ''Sam'')]" "[]"
      "''2024-05-01T10:00:00''"]
  by (simp add: registered_store_def)

text \<open>
  The claim as it was stated, without the condition on the stored record, fails: in
  \<open>legacy_store\<close> both ids are non-empty keys of their maps and the answer is 500.
\<close>

theorem select_tutor_appends_counterexample:
  "is_key (JStr ''t1'')
     [(''t0'', []), (''t1'', [(''id'', JStr ''t1''), (''name'', JStr ''Jane'')])]
   \<and> is_key (JStr ''s1'') [(''s1'', [(''id'', JStr ''s1''), (''name'', JStr ''Sam'')])]
   \<and> select_tutor ''2024-05-01T10:00:00''
        (JObj [(''tutorId'', JStr ''t1''), (''studentId'', JStr ''s1'')]) legacy_store =
      (Reply (Failure ''Failed to notify tutor'' (KeyError ''notifications'')) 500,
       legacy_store)"
  by (simp add: is_key_def select_tutor_def dict_get_obj select_tutor_try_def load_data_def
      legacy_store_def append_notification_def)

text \<open>
  C7. When both ids are non-empty keys of their maps and the tutor's stored record has no
  \<open>notifications\<close> field, the append raises \<open>KeyError\<close>; the handler catches it and
  answers 500 with a message and the error, and writes nothing. No 200 is returned.
\<close>

theorem select_tutor_missing_notifications:
  assumes "map_of fields ''tutorId'' = Some (JStr t)" and "t \<noteq> []"
    and "map_of fields ''studentId'' = Some (JStr s)" and "s \<noteq> []"
    and "st TUTORS_FILE = Holds tutor_data" and "st STUDENTS_FILE = Holds student_data"
    and "map_of tutor_data t = Some tutor" and "map_of student_data s = Some student"
    and "map_of tutor ''notifications'' = None"
  shows "select_tutor now (JObj fields) st =
    (Reply (Failure ''Failed to notify tutor'' (KeyError ''notifications'')) 500, st)"
  using assms
  by (simp add: select_tutor_def dict_get_obj select_tutor_try_def load_data_Holds
      append_notification_def)

theorem select_tutor_missing_notifications_witness:
  "select_tutor ''2024-06-02T08:30:00''
     (JObj [(''studentId'', JStr ''s1''), (''tutorId'', JStr ''t1'')]) legacy_store =
   (Reply (Failure ''Failed to notify tutor'' (KeyError ''notifications'')) 500, legacy_store)"
  using select_tutor_missing_notifications
    [of "[(''studentId'', JStr ''s1''), (''tutorId'', JStr ''t1'')]" "''t1''" "''s1''"
      legacy_store
      "[(''t0'', []), (''t1'', [(''id'', JStr ''t1''), (''name'', JStr ''Jane'')])]"
      "[(''s1'', [(''id'', JStr ''s1''), (''name'', JStr ''Sam'')])]"
      "[(''id'', JStr ''t1''), (''name'', JStr ''Jane'')]"
      "[(''id'', JStr ''s1''), (''name'', JStr ''Sam'')]"
      "''2024-06-02T08:30:00''"]
  by (simp add: legacy_store_def)

text \<open>
  C2 (amended). A SelectTutor request whose \<open>tutorId\<close> and \<open>studentId\<close> are truthy,
  where \<open>tutorId\<close> is not a key of the tutor map or \<open>studentId\<close> is not a key of the
  student map, is answered 404 with \<open>{message: "Tutor or student not found"}\<close>, with
  nothing appended and the store left as it was, provided \<open>tutorId\<close> is neither an array
  nor an object and, when \<open>tutorId\<close> is a key of the tutor map, neither is \<open>studentId\<close>
  (the student is tested only then).
\<close>

theorem select_tutor_not_found:
  assumes "map_of fields ''tutorId'' = Some tutor_id" and "truthy tutor_id"
    and "map_of fields ''studentId'' = Some student_id" and "truthy student_id"
    and "st TUTORS_FILE = Holds tutor_data" and "st STUDENTS_FILE = Holds student_data"
    and "\<not> is_key tutor_id tutor_data \<or> \<not> is_key student_id student_data"
    and "hashable tutor_id"
    and "is_key tutor_id tutor_data \<longrightarrow> hashable student_id"
  shows "select_tutor now (JObj fields) st =
    (Reply (message ''Tutor or student not found'') 404, st)"
proof (cases "is_key tutor_id tutor_data")
  case False
  then have "find_key tutor_id tutor_data = Inr None"
    using assms(8) by (simp add: find_key_None)
  then show ?thesis
    using assms(5,6)
    by (simp add: select_tutor_truthy [OF assms(1-4)] select_tutor_try_def load_data_def)
next
  case True
  then obtain t where "find_key tutor_id tutor_data = Inr (Some t)"
    by (auto simp: is_key_iff find_key_Some)
  moreover have "find_key student_id student_data = Inr None"
    using True assms(7,9) by (simp add: find_key_None)
  ultimately show ?thesis
    using assms(5,6)
    by (simp add: select_tutor_truthy [OF assms(1-4)] select_tutor_try_def load_data_def)
qed

theorem select_tutor_not_found_witness:
  "select_tutor ''2024-05-01T10:00:00''
     (JObj [(''tutorId'', JStr ''t1''), (''studentId'', JInt 7)]) registered_store =
   (Reply (message ''Tutor or student not found'') 404, registered_store)
   \<and> select_tutor ''2024-05-01T10:00:00''
     (JObj [(''tutorId'', JStr ''t9''), (''studentId'', JList [JStr ''s1''])])
     registered_store =
   (Reply (message ''Tutor or student not found'') 404, registered_store)"
  using select_tutor_not_found
    [of "[(''tutorId'', JStr ''t1''), (''studentId'', JInt 7)]" "JStr ''t1''" "JInt 7"
      registered_store
      "[(''t1'', [(''id'', JStr ''t1''), (''name'', JStr ''Jane''),
                  (''notifications'', JList [])])]"
      "[(''s1'', [(''id'', JStr ''s1''), (''name'', JStr ''Sam'')])]"
      "''2024-05-01T10:00:00''"]
    select_tutor_not_found
    [of "[(''tutorId'', JStr ''t9''), (''studentId'', JList [JStr ''s1''])]" "JStr ''t9''"
      "JList [JStr ''s1'']" registered_store
      "[(''t1'', [(''id'', JStr ''t1''), (''name'', JStr ''Jane''),
                  (''notifications'', JList [])])]"
      "[(''s1'', [(''id'', JStr ''s1''), (''name'', JStr ''Sam'')])]"
      "''2024-05-01T10:00:00''"]
  by (simp add: registered_store_def is_key_def)

text \<open>
  The claim as it was stated fails for an id that cannot be hashed where it is tested.
  The list \<open>["t9"]\<close> is truthy and is not a key of the tutor map, and the membership test
  raises, so the answer is 500.
\<close>

theorem select_tutor_not_found_counterexample:
  "truthy (JList [JStr ''t9'']) \<and> truthy (JStr ''s1'')
   \<and> \<not> is_key (JList [JStr ''t9''])
        [(''t1'', [(''id'', JStr ''t1''), (''name'', JStr ''Jane''),
                   (''notifications'', JList [])])]
   \<and> select_tutor ''2024-05-01T10:00:00''
        (JObj [(''tutorId'', JList [JStr ''t9'']), (''studentId'', JStr ''s1'')])
        registered_store =
      (Reply (Failure ''Failed to notify tutor'' TypeError) 500, registered_store)"
  by (simp add: is_key_def select_tutor_def dict_get_obj select_tutor_try_def load_data_def
      registered_store_def)

text \<open>What a 200 from \<^verbatim>\<open>select_tutor\<close> says of the request and of the store.\<close>

lemma select_tutor_200D:
  assumes "select_tutor now request_data st = (Reply b 200, st')"
  shows "\<exists>t s tutor_data student_data tutor student ns.
      dict_get request_data ''tutorId'' = Inr (JStr t)
    \<and> dict_get request_data ''studentId'' = Inr (JStr s)
    \<and> st TUTORS_FILE = Holds tutor_data \<and> st STUDENTS_FILE = Holds student_data
    \<and> map_of tutor_data t = Some tutor \<and> map_of student_data s = Some student
    \<and> map_of tutor ''notifications'' = Some (JList ns)
    \<and> st' = st(TUTORS_FILE := Holds (AList.update t
         (AList.update ''notifications'' (JList (ns @ [notification s now])) tutor)
         tutor_data))"
  using assms
  by (auto simp: select_tutor_def select_tutor_try_def append_notification_def save_data_def
      load_data_def message_def find_key_Some is_key_iff
      split: sum.splits option.splits json.splits if_splits file_state.splits)

text \<open>
  C9. A SelectTutor request that is answered 200 changes the store in one place only. The
  students file is never written, and the tutors file is the only file that changes. With
  \<open>t\<close> the request's \<open>tutorId\<close> and \<open>s\<close> its \<open>studentId\<close>: in the tutors file the keys and
  their order stay, every record but the one under \<open>t\<close> stays, and in the record under
  \<open>t\<close> the fields and their order stay and every field but \<open>notifications\<close> keeps its
  value; \<open>notifications\<close> gains one entry at its end, the notification for \<open>s\<close>.
\<close>

theorem select_tutor_frame:
  assumes "select_tutor now request_data st = (Reply b 200, st')"
  shows "st' STUDENTS_FILE = st STUDENTS_FILE
    \<and> (\<exists>t s tutor_data tutor_data' tutor tutor' ns.
          dict_get request_data ''tutorId'' = Inr (JStr t)
        \<and> dict_get request_data ''studentId'' = Inr (JStr s)
        \<and> st TUTORS_FILE = Holds tutor_data \<and> st' = st(TUTORS_FILE := Holds tutor_data')
        \<and> map fst tutor_data' = map fst tutor_data
        \<and> (\<forall>k. k \<noteq> t \<longrightarrow> map_of tutor_data' k = map_of tutor_data k)
        \<and> map_of tutor_data t = Some tutor \<and> map_of tutor_data' t = Some tutor'
        \<and> map fst tutor' = map fst tutor
        \<and> (\<forall>f. f \<noteq> ''notifications'' \<longrightarrow> map_of tutor' f = map_of tutor f)
        \<and> map_of tutor ''notifications'' = Some (JList ns)
        \<and> map_of tutor' ''notifications'' = Some (JList (ns @ [notification s now])))"
proof -
  from select_tutor_200D [OF assms]
  obtain t s tutor_data student_data tutor student ns where
    tutor_id: "dict_get request_data ''tutorId'' = Inr (JStr t)"
    and student_id: "dict_get request_data ''studentId'' = Inr (JStr s)"
    and tutors: "st TUTORS_FILE = Holds tutor_data"
    and "st STUDENTS_FILE = Holds student_data"
    and tutor: "map_of tutor_data t = Some tutor"
    and "map_of student_data s = Some student"
    and list: "map_of tutor ''notifications'' = Some (JList ns)"
    and st': "st' = st(TUTORS_FILE := Holds (AList.update t
         (AList.update ''notifications'' (JList (ns @ [notification s now])) tutor)
         tutor_data))"
    by blast
  let ?tutor' = "AList.update ''notifications'' (JList (ns @ [notification s now])) tutor"
  let ?data' = "AList.update t ?tutor' tutor_data"
  have students: "st' STUDENTS_FILE = st STUDENTS_FILE"
    by (simp add: st')
  have tutors': "st' = st(TUTORS_FILE := Holds ?data')"
    by (simp add: st')
  have keys: "map fst ?data' = map fst tutor_data"
    by (rule update_keys_present [OF tutor])
  have others: "\<forall>k. k \<noteq> t \<longrightarrow> map_of ?data' k = map_of tutor_data k"
    by (simp add: AList.update_conv')
  have tutor': "map_of ?data' t = Some ?tutor'"
    by (simp add: AList.update_conv')
  have names: "map fst ?tutor' = map fst tutor"
    by (rule update_keys_present [OF list])
  have kept: "\<forall>f. f \<noteq> ''notifications'' \<longrightarrow> map_of ?tutor' f = map_of tutor f"
    by (simp add: AList.update_conv')
  have list': "map_of ?tutor' ''notifications'' = Some (JList (ns @ [notification s now]))"
    by (simp add: AList.update_conv')
  from tutor_id student_id tutors tutors' keys others tutor tutor' names kept list list'
  have "\<exists>t s tutor_data tutor_data' tutor tutor' ns.
          dict_get request_data ''tutorId'' = Inr (JStr t)
        \<and> dict_get request_data ''studentId'' = Inr (JStr s)
        \<and> st TUTORS_FILE = Holds tutor_data \<and> st' = st(TUTORS_FILE := Holds tutor_data')
        \<and> map fst tutor_data' = map fst tutor_data
        \<and> (\<forall>k. k \<noteq> t \<longrightarrow> map_of tutor_data' k = map_of tutor_data k)
        \<and> map_of tutor_data t = Some tutor \<and> map_of tutor_data' t = Some tutor'
        \<and> map fst tutor' = map fst tutor
        \<and> (\<forall>f. f \<noteq> ''notifications'' \<longrightarrow> map_of tutor' f = map_of tutor f)
        \<and> map_of tutor ''notifications'' = Some (JList ns)
        \<and> map_of tutor' ''notifications'' = Some (JList (ns @ [notification s now]))"
    by blast
  with students show ?thesis
    by blast
qed

theorem select_tutor_frame_witness:
  "select_tutor ''2024-07-03T09:15:00''
     (JObj [(''tutorId'', JStr ''t1''), (''studentId'', JStr ''s1''), (''note'', JNull)])
     registered_store =
   (Reply (message ''Tutor notified successfully!'') 200,
    registered_store(TUTORS_FILE := Holds
      [(''t1'', [(''id'', JStr ''t1''), (''name'', JStr ''Jane''),
         (''notifications'', JList [notification ''s1'' ''2024-07-03T09:15:00''])])]))
   \<and> (registered_store(TUTORS_FILE := Holds
      [(''t1'', [(''id'', JStr ''t1''), (''name'', JStr ''Jane''),
         (''notifications'', JList [notification ''s1'' ''2024-07-03T09:15:00''])])]))
       STUDENTS_FILE = registered_store STUDENTS_FILE"
proof -
  have run: "select_tutor ''2024-07-03T09:15:00''
     (JObj [(''tutorId'', JStr ''t1''), (''studentId'', JStr ''s1''), (''note'', JNull)])
     registered_store =
   (Reply (message ''Tutor notified successfully!'') 200,
    registered_store(TUTORS_FILE := Holds
      [(''t1'', [(''id'', JStr ''t1''), (''name'', JStr ''Jane''),
         (''notifications'', JList [notification ''s1'' ''2024-07-03T09:15:00''])])]))"
    by (simp add: select_tutor_def dict_get_obj select_tutor_try_def load_data_def
        registered_store_def append_notification_def save_data_def)
  from select_tutor_frame [OF run] run show ?thesis
    by blast
qed

subsection \<open>\<^verbatim>\<open>register_tutor\<close>\<close>

text \<open>
  C3 (amended). A RegisterTutor request whose body has a truthy \<open>id\<close> that is a string, a
  number or a boolean is answered 201, and the tutor map is saved with the body stored
  under that id (\<open>k\<close>: the id itself when it is a string, its JSON text otherwise), at the
  place of the record that was there under the same id, if any. In the stored record
  \<open>notifications\<close> is the empty list, whatever the client sent and whatever the record
  it replaces held; every other field is the body's. The other records are untouched.
\<close>

theorem register_tutor_stores_profile:
  assumes "map_of fields ''id'' = Some tutor_id" and "truthy tutor_id"
    and "key_text tutor_id = Inr k"
    and "st TUTORS_FILE = Holds data"
  shows "register_tutor (JObj fields) st =
      (Reply (message ''Tutor profile saved successfully!'') 201,
       st(TUTORS_FILE := Holds
         (AList.update k (AList.update ''notifications'' (JList []) fields) data)))
    \<and> hashable tutor_id \<and> (\<forall>s. tutor_id = JStr s \<longrightarrow> k = s)
    \<and> (\<exists>tutor.
          map_of (AList.update k (AList.update ''notifications'' (JList []) fields) data) k =
            Some tutor
        \<and> map_of tutor ''notifications'' = Some (JList [])
        \<and> (\<forall>f. f \<noteq> ''notifications'' \<longrightarrow> map_of tutor f = map_of fields f))
    \<and> (\<forall>k'. k' \<noteq> k \<longrightarrow>
          map_of (AList.update k (AList.update ''notifications'' (JList []) fields) data) k' =
            map_of data k')"
proof -
  have "register_tutor (JObj fields) st =
      (Reply (message ''Tutor profile saved successfully!'') 201,
       st(TUTORS_FILE := Holds
         (AList.update k (AList.update ''notifications'' (JList []) fields) data)))"
    using assms
    by (simp add: register_tutor_def dict_get_obj register_tutor_try_def load_data_def
        save_data_def)
  moreover have "hashable tutor_id"
    using assms(3) by (auto simp: key_text_hashable)
  moreover have "\<forall>s. tutor_id = JStr s \<longrightarrow> k = s"
    using assms(3) by auto
  ultimately show ?thesis
    by (simp add: AList.update_conv')
qed

theorem register_tutor_stores_profile_witness:
  "register_tutor
     (JObj [(''id'', JStr ''t1''), (''name'', JStr ''Janet''),
            (''notifications'', JList [JStr ''mine''])])
     (registered_store(TUTORS_FILE := Holds
        [(''t1'', [(''id'', JStr ''t1''), (''name'', JStr ''Jane''),
                   (''notifications'', JList [notification ''s1'' ''2024-05-01T10:00:00''])]),
         (''t2'', [(''id'', JStr ''t2''), (''notifications'', JList [])])])) =
   (Reply (message ''Tutor profile saved successfully!'') 201,
    registered_store(TUTORS_FILE := Holds
        [(''t1'', [(''id'', JStr ''t1''), (''name'', JStr ''Janet''),
                   (''notifications'', JList [])]),
         (''t2'', [(''id'', JStr ''t2''), (''notifications'', JList [])])]))"
  using register_tutor_stores_profile
    [of "[(''id'', JStr ''t1''), (''name'', JStr ''Janet''),
          (''notifications'', JList [JStr ''mine''])]"
      "JStr ''t1''" "''t1''"
      "registered_store(TUTORS_FILE := Holds
        [(''t1'', [(''id'', JStr ''t1''), (''name'', JStr ''Jane''),
                   (''notifications'', JList [notification ''s1'' ''2024-05-01T10:00:00''])]),
         (''t2'', [(''id'', JStr ''t2''), (''notifications'', JList [])])])"
      "[(''t1'', [(''id'', JStr ''t1''), (''name'', JStr ''Jane''),
                   (''notifications'', JList [notification ''s1'' ''2024-05-01T10:00:00''])]),
         (''t2'', [(''id'', JStr ''t2''), (''notifications'', JList [])])]"]
  by simp

text \<open>
  The claim as it was stated fails for an id that cannot be hashed: the list \<open>[1]\<close> is
  truthy, \<^verbatim>\<open>data[tutor_id] = tutor_data\<close> raises, and the answer is 500 with nothing
  written.
\<close>

theorem register_tutor_stores_counterexample:
  "truthy (JList [JInt 1])
   \<and> register_tutor (JObj [(''id'', JList [JInt 1]), (''name'', JStr ''Jane'')])
        registered_store =
      (Reply (Failure ''Failed to save tutor profile'' TypeError) 500, registered_store)"
  by (simp add: register_tutor_def dict_get_obj register_tutor_try_def load_data_def
      registered_store_def)

text \<open>
  C4. A RegisterTutor request whose body has no \<open>id\<close>, or an \<open>id\<close> that is the empty
  string or any other falsy value, is answered 400 with
  \<open>{message: "Tutor ID is required"}\<close>, and nothing is written: the store is as it was.
\<close>

theorem register_tutor_requires_id:
  assumes "map_of fields ''id'' = None
    \<or> (\<exists>tutor_id. map_of fields ''id'' = Some tutor_id \<and> \<not> truthy tutor_id)"
  shows "register_tutor (JObj fields) st =
    (Reply (Json (JObj [(''message'', JStr ''Tutor ID is required'')])) 400, st)"
  using assms by (auto simp: register_tutor_def dict_get_obj message_def)

theorem register_tutor_requires_id_witness:
  "register_tutor (JObj [(''name'', JStr ''Jane''), (''id'', JStr [])]) registered_store =
     (Reply (Json (JObj [(''message'', JStr ''Tutor ID is required'')])) 400, registered_store)
   \<and> register_tutor (JObj [(''name'', JStr ''Jane'')]) registered_store =
     (Reply (Json (JObj [(''message'', JStr ''Tutor ID is required'')])) 400, registered_store)"
  using register_tutor_requires_id
      [of "[(''name'', JStr ''Jane''), (''id'', JStr [])]" registered_store]
    register_tutor_requires_id [of "[(''name'', JStr ''Jane'')]" registered_store]
  by simp

subsection \<open>\<^verbatim>\<open>get_all_tutors\<close>\<close>

text \<open>
  C5. Whatever the tutor map holds, ListTutors answers 200 with the list of its records,
  in the map's order, each without its \<open>notifications\<close> field and with every other field
  as stored: no element of the list has a \<open>notifications\<close> key.
\<close>

theorem get_all_tutors_strips_notifications:
  assumes "st TUTORS_FILE = Holds data"
  shows "\<exists>tutors.
      get_all_tutors st = Reply (Json (JList (map JObj tutors))) 200
    \<and> length tutors = length data
    \<and> (\<forall>i<length data.
          ''notifications'' \<notin> fst ` set (tutors ! i)
        \<and> (\<forall>k. k \<noteq> ''notifications'' \<longrightarrow>
              map_of (tutors ! i) k = map_of (snd (data ! i)) k)
        \<and> map fst (tutors ! i) = filter (\<lambda>k. k \<noteq> ''notifications'') (map fst (snd (data ! i))))"
proof -
  let ?tutors = "map (\<lambda>(tutor_id, tutor). strip_notifications tutor) data"
  have "get_all_tutors st = Reply (Json (JList (map JObj ?tutors))) 200"
    using assms by (simp add: get_all_tutors_def load_data_def case_prod_beta comp_def)
  moreover have "length ?tutors = length data"
    by simp
  moreover have "\<forall>i<length data.
          ''notifications'' \<notin> fst ` set (?tutors ! i)
        \<and> (\<forall>k. k \<noteq> ''notifications'' \<longrightarrow>
              map_of (?tutors ! i) k = map_of (snd (data ! i)) k)
        \<and> map fst (?tutors ! i) = filter (\<lambda>k. k \<noteq> ''notifications'') (map fst (snd (data ! i)))"
    by (simp add: case_prod_beta keys_strip_notifications map_of_strip_notifications
        keys_order_strip_notifications)
  ultimately show ?thesis
    by blast
qed

theorem get_all_tutors_strips_notifications_witness:
  "get_all_tutors registered_store =
     Reply (Json (JList [JObj [(''id'', JStr ''t1''), (''name'', JStr ''Jane'')]])) 200"
proof -
  from get_all_tutors_strips_notifications
    [of registered_store
      "[(''t1'', [(''id'', JStr ''t1''), (''name'', JStr ''Jane''),
                  (''notifications'', JList [])])]"]
  obtain tutors where "get_all_tutors registered_store = Reply (Json (JList (map JObj tutors))) 200"
    by (auto simp: registered_store_def)
  moreover have "get_all_tutors registered_store =
     Reply (Json (JList [JObj [(''id'', JStr ''t1''), (''name'', JStr ''Jane'')]])) 200"
    by (simp add: get_all_tutors_def load_data_def registered_store_def
        strip_notifications_def)
  ultimately show ?thesis
    by simp
qed

subsection \<open>\<^verbatim>\<open>get_tutor_notifications\<close>\<close>

text \<open>
  C6 (amended). GetTutorNotifications answers 404 with \<open>{message: "Tutor not found"}\<close>
  when \<open>tutorId\<close> is not a key of the tutor map or the record stored under it is empty.
  Otherwise it answers 200 with \<open>{notifications: s}\<close>, where \<open>s\<close> is what the record
  holds under \<open>notifications\<close>, and the empty list when the record has no such field.
\<close>

theorem get_tutor_notifications_reply:
  assumes "st TUTORS_FILE = Holds tutor_data"
  shows "(map_of tutor_data tutor_id = None \<or> map_of tutor_data tutor_id = Some [] \<longrightarrow>
        get_tutor_notifications tutor_id st = Reply (message ''Tutor not found'') 404)
    \<and> (\<forall>tutor. map_of tutor_data tutor_id = Some tutor \<and> tutor \<noteq> [] \<longrightarrow>
          (\<forall>s. map_of tutor ''notifications'' = Some s \<longrightarrow>
             get_tutor_notifications tutor_id st =
               Reply (Json (JObj [(''notifications'', s)])) 200)
        \<and> (map_of tutor ''notifications'' = None \<longrightarrow>
             get_tutor_notifications tutor_id st =
               Reply (Json (JObj [(''notifications'', JList [])])) 200))
    \<and> message ''Tutor not found'' = Json (JObj [(''message'', JStr ''Tutor not found'')])"
  using assms by (auto simp: get_tutor_notifications_def load_data_def message_def)

theorem get_tutor_notifications_reply_witness:
  "get_tutor_notifications ''t1'' registered_store =
     Reply (Json (JObj [(''notifications'', JList [])])) 200
   \<and> get_tutor_notifications ''t1'' legacy_store =
     Reply (Json (JObj [(''notifications'', JList [])])) 200
   \<and> get_tutor_notifications ''t7'' legacy_store = Reply (message ''Tutor not found'') 404"
  using get_tutor_notifications_reply
      [of registered_store
        "[(''t1'', [(''id'', JStr ''t1''), (''name'', JStr ''Jane''),
                    (''notifications'', JList [])])]" "''t1''"]
    get_tutor_notifications_reply
      [of legacy_store
        "[(''t0'', []), (''t1'', [(''id'', JStr ''t1''), (''name'', JStr ''Jane'')])]" "''t1''"]
    get_tutor_notifications_reply
      [of legacy_store
        "[(''t0'', []), (''t1'', [(''id'', JStr ''t1''), (''name'', JStr ''Jane'')])]" "''t7''"]
  by (simp add: registered_store_def legacy_store_def)

text \<open>
  The claim as it was stated, 200 whenever \<open>tutorId\<close> is a key of the tutor map, fails: in
  \<open>legacy_store\<close> the id \<open>t0\<close> is a key, and the answer is 404.
\<close>

theorem get_tutor_notifications_counterexample:
  "is_key (JStr ''t0'')
     [(''t0'', []), (''t1'', [(''id'', JStr ''t1''), (''name'', JStr ''Jane'')])]
   \<and> get_tutor_notifications ''t0'' legacy_store = Reply (message ''Tutor not found'') 404"
  by (simp add: is_key_def get_tutor_notifications_def load_data_def legacy_store_def)

text \<open>
  C10. GetTutorNotifications tests the record it looked up, not the key: when \<open>tutorId\<close>
  is a key of the tutor map and the record under it is empty, the answer is 404.
\<close>

theorem get_tutor_notifications_empty_record:
  assumes "st TUTORS_FILE = Holds tutor_data"
    and "map_of tutor_data tutor_id = Some tutor" and "\<not> truthy (JObj tutor)"
  shows "is_key (JStr tutor_id) tutor_data
    \<and> get_tutor_notifications tutor_id st =
        Reply (Json (JObj [(''message'', JStr ''Tutor not found'')])) 404"
  using assms by (simp add: is_key_def get_tutor_notifications_def load_data_def message_def)

theorem get_tutor_notifications_empty_record_witness:
  "get_tutor_notifications ''ghost''
     (\<lambda>p. Holds [(''t1'', [(''notifications'', JList [])]), (''ghost'', [])]) =
   Reply (Json (JObj [(''message'', JStr ''Tutor not found'')])) 404"
  using get_tutor_notifications_empty_record
    [of "\<lambda>p. Holds [(''t1'', [(''notifications'', JList [])]), (''ghost'', [])]"
      "[(''t1'', [(''notifications'', JList [])]), (''ghost'', [])]" "''ghost''" "[]"]
  by simp

subsection \<open>\<^verbatim>\<open>save_data\<close> and \<^verbatim>\<open>load_data\<close>\<close>


subsection \<open>The scenario of the specification\<close>

text \<open>
  From two empty documents: registering the tutor \<open>t1\<close> and the student \<open>s1\<close> gives
  \<open>registered_store\<close>; after \<open>s1\<close> selects \<open>t1\<close>, the notifications of \<open>t1\<close> are the
  one notification. A numeric id is stored under its decimal text.
\<close>

lemma registered_store_built:
  "snd (register_student (JObj [(''id'', JStr ''s1''), (''name'', JStr ''Sam'')])
     (snd (register_tutor (JObj [(''id'', JStr ''t1''), (''name'', JStr ''Jane'')])
        (\<lambda>p. Holds [])))) = registered_store"
  by (auto simp: register_student_def register_student_try_def register_tutor_def
      register_tutor_try_def dict_get_obj load_data_def save_data_def registered_store_def
      fun_eq_iff split: path.splits)

lemma scenario_replies:
  "fst (register_tutor (JObj [(''id'', JStr ''t1''), (''name'', JStr ''Jane'')])
     (\<lambda>p. Holds [])) = Reply (message ''Tutor profile saved successfully!'') 201"
  "fst (register_student (JObj [(''id'', JStr ''s1''), (''name'', JStr ''Sam'')])
     (snd (register_tutor (JObj [(''id'', JStr ''t1''), (''name'', JStr ''Jane'')])
        (\<lambda>p. Holds []))))
    = Reply (message ''Student profile saved successfully!'') 201"
  "get_tutor_notifications ''t1''
     (snd (select_tutor ''2024-05-01T10:00:00''
        (JObj [(''tutorId'', JStr ''t1''), (''studentId'', JStr ''s1'')]) registered_store)) =
   Reply (Json (JObj [(''notifications'', JList
     [JObj [(''student_id'', JStr ''s1''),
            (''message'', JStr ''Student s1 is interested in your services.''),
            (''timestamp'', JStr ''2024-05-01T10:00:00'')]])])) 200"
  by (simp_all add: register_student_def register_student_try_def register_tutor_def
      register_tutor_try_def dict_get_obj load_data_def save_data_def registered_store_def
      select_tutor_def select_tutor_try_def append_notification_def notification_def
      get_tutor_notifications_def)

lemma register_tutor_numeric_id:
  "register_tutor (JObj [(''id'', JInt 42)]) (\<lambda>p. Holds [(''42'', [(''old'', JNull)])]) =
    (Reply (message ''Tutor profile saved successfully!'') 201,
     (\<lambda>p. Holds [(''42'', [(''old'', JNull)])])(TUTORS_FILE :=
        Holds [(''42'', [(''id'', JInt 42), (''notifications'', JList [])])]))"
  by (simp add: register_tutor_def register_tutor_try_def dict_get_obj load_data_def
      save_data_def int_repr_def)

end
